theory Spec2Isabelle
  imports Main "HOL-Library.Word"
begin

section \<open>Go values as the template engine sees them\<close>

text \<open>
  The function library of \<^verbatim>\<open>funcs.go\<close> is bound into \<^verbatim>\<open>html/template\<close>. The engine and
  \<^verbatim>\<open>reflect\<close> handle every argument and result as a dynamically typed value (Go's
  \<^verbatim>\<open>any\<close>), so the model has one universe of values, each carrying its dynamic type.

  A Go \<^verbatim>\<open>string\<close> is a byte sequence: it is an Isabelle \<open>string\<close>, whose characters are
  bytes. The named string types of \<^verbatim>\<open>html/template\<close> (\<^verbatim>\<open>HTML\<close>, \<^verbatim>\<open>HTMLAttr\<close>, \<^verbatim>\<open>JS\<close>,
  \<^verbatim>\<open>JSStr\<close>, \<^verbatim>\<open>Srcset\<close>) have the same bytes and another type; the escaper treats a
  plain \<^verbatim>\<open>string\<close> as untrusted and the others as content already safe for their context.
  Go's \<^verbatim>\<open>int\<close> is a signed 64-bit word, read with \<open>sint\<close>.
\<close>

datatype strtype = GoString | HTML | HTMLAttr | JS | JSStr | Srcset

datatype gtype =
    TBool
  | TInt
  | TUint8
  | TStr strtype
  | TAny                                  \<comment> \<open>\<^verbatim>\<open>interface{}\<close>\<close>
  | TError                                \<comment> \<open>the interface \<^verbatim>\<open>error\<close>\<close>
  | TErrorString                          \<comment> \<open>\<^verbatim>\<open>*errors.errorString\<close>, what \<^verbatim>\<open>fmt.Errorf\<close> returns\<close>
  | THandlerError                         \<comment> \<open>the struct \<^verbatim>\<open>caddyhttp.HandlerError\<close>\<close>
  | TSlice gtype
  | TArray nat gtype
  | TMap gtype gtype
  | TFunc "gtype list" bool "gtype list"  \<comment> \<open>parameters, variadic, results\<close>

type_synonym fid = nat  \<comment> \<open>the code a non-nil function value points to\<close>

datatype gval =
    VNil                                  \<comment> \<open>the nil interface value\<close>
  | VBool bool
  | VInt "64 word"
  | VUint8 "8 word"
  | VStr strtype string
  | VErrorString "string option"          \<comment> \<open>\<open>None\<close> is the nil pointer of that type\<close>
  | VHandlerError (Err: gval) (StatusCode: "64 word") (ID: string) (Trace: string)
  | VSlice gtype "gval list"
  | VArray gtype "gval list"
  | VMap gtype gtype "(gval \<times> gval) list"
  | VFunc "gtype list" bool "gtype list" "fid option"  \<comment> \<open>\<open>None\<close> is the nil function\<close>

text \<open>\<^verbatim>\<open>fmt.Errorf\<close> without \<^verbatim>\<open>%w\<close>: a non-nil error whose message is the formatted text.\<close>

definition Errorf :: "string \<Rightarrow> gval" where
  "Errorf msg = VErrorString (Some msg)"

text \<open>The bytes of a string-kinded value: the conversion \<^verbatim>\<open>string(v)\<close>.\<close>

fun string_of :: "gval \<Rightarrow> string option" where
  "string_of (VStr k s) = Some s"
| "string_of _ = None"

fun strtype_of :: "gval \<Rightarrow> strtype option" where
  "strtype_of (VStr k s) = Some k"
| "strtype_of _ = None"

section \<open>Trust markers\<close>

text \<open>Each marker is the type conversion \<^verbatim>\<open>template.T(s)\<close> of its argument.\<close>

definition funcTrustHtml :: "string \<Rightarrow> gval" where
  "funcTrustHtml s = VStr HTML s"

definition funcTrustAttr :: "string \<Rightarrow> gval" where
  "funcTrustAttr s = VStr HTMLAttr s"

definition funcTrustJS :: "string \<Rightarrow> gval" where
  "funcTrustJS s = VStr JS s"

definition funcTrustJSStr :: "string \<Rightarrow> gval" where
  "funcTrustJSStr s = VStr JSStr s"

definition funcTrustSrcSet :: "string \<Rightarrow> gval" where
  "funcTrustSrcSet s = VStr Srcset s"

section \<open>httpError\<close>

text \<open>
  \<^verbatim>\<open>caddyhttp.Error(statusCode, err)\<close> belongs to the host server. With a nil cause it
  returns the struct literal
  \<^verbatim>\<open>HandlerError{ID: randString(9, true), StatusCode: statusCode, Err: err, Trace: trace()}\<close>.
  The random identifier and the caller's trace are inputs of the model.
\<close>

definition caddyhttp_Error :: "string \<Rightarrow> string \<Rightarrow> 64 word \<Rightarrow> gval" where
  "caddyhttp_Error rid tr statusCode = VHandlerError VNil statusCode rid tr"

text \<open>\<^verbatim>\<open>funcHTTPError\<close> returns the pair \<^verbatim>\<open>(false, caddyhttp.Error(statusCode, nil))\<close>.\<close>

definition funcHTTPError :: "string \<Rightarrow> string \<Rightarrow> 64 word \<Rightarrow> bool \<times> gval" where
  "funcHTTPError rid tr statusCode = (False, caddyhttp_Error rid tr statusCode)"

section \<open>The part of \<^verbatim>\<open>reflect\<close> the library uses\<close>

text \<open>
  \<^verbatim>\<open>reflect\<close> is Go's standard library. Its operations are modelled from their documented
  behaviour; wherever \<^verbatim>\<open>reflect\<close> or the runtime panics, the model returns the panic as
  \<open>Inl\<close>.
\<close>

datatype kind =
  KInvalid | KBool | KInt | KUint8 | KString | KInterface | KPointer | KStruct
  | KSlice | KArray | KMap | KFunc

datatype panic =
    ValueError string kind      \<comment> \<open>\<^verbatim>\<open>reflect: call of <method> on <kind> Value\<close>\<close>
  | IndexOutOfRange kind        \<comment> \<open>\<^verbatim>\<open>reflect: <kind> index out of range\<close>\<close>
  | FuncIndexOutOfBounds        \<comment> \<open>\<^verbatim>\<open>reflect: Func index out of bounds\<close>, from \<^verbatim>\<open>In(i)\<close>\<close>
  | CallOfNilFunction           \<comment> \<open>\<^verbatim>\<open>reflect.Value.Call: call of nil function\<close>\<close>
  | CallSliceOfNonVariadic
  | TooFewInputArguments        \<comment> \<open>\<^verbatim>\<open>reflect: Call with too few input arguments\<close>\<close>
  | TooManyInputArguments       \<comment> \<open>\<^verbatim>\<open>reflect: Call with too many input arguments\<close>\<close>
  | ZeroValueArgument
  | NotAssignable gtype gtype   \<comment> \<open>\<^verbatim>\<open>reflect: Call using <type> as type <type>\<close>\<close>
  | RuntimeIndexOutOfRange      \<comment> \<open>indexing a Go slice past its length\<close>
  | InterfaceConversion         \<comment> \<open>a failed type assertion \<^verbatim>\<open>x.(error)\<close>\<close>
  | Raised string               \<comment> \<open>a panic of the called function itself\<close>

text \<open>
  A \<^verbatim>\<open>reflect.Value\<close>: the zero Value (what \<^verbatim>\<open>ValueOf(nil)\<close> returns), or a type with the
  value it holds. The type is an interface type only for a Value made by \<^verbatim>\<open>New(t).Elem()\<close>
  or by indexing a sequence of interfaces.
\<close>

datatype rvalue = ZeroValue | RValue gtype gval

fun rdata :: "rvalue \<Rightarrow> gval" where
  "rdata ZeroValue = VNil"
| "rdata (RValue t v) = v"

text \<open>The dynamic type of a value; the nil interface has none.\<close>

fun dyntype :: "gval \<Rightarrow> gtype option" where
  "dyntype VNil = None"
| "dyntype (VBool b) = Some TBool"
| "dyntype (VInt i) = Some TInt"
| "dyntype (VUint8 b) = Some TUint8"
| "dyntype (VStr k s) = Some (TStr k)"
| "dyntype (VErrorString m) = Some TErrorString"
| "dyntype (VHandlerError e c i t) = Some THandlerError"
| "dyntype (VSlice t xs) = Some (TSlice t)"
| "dyntype (VArray t xs) = Some (TArray (length xs) t)"
| "dyntype (VMap k v m) = Some (TMap k v)"
| "dyntype (VFunc ps vd rs c) = Some (TFunc ps vd rs)"

definition ValueOf :: "gval \<Rightarrow> rvalue" where
  "ValueOf a = (case dyntype a of None \<Rightarrow> ZeroValue | Some t \<Rightarrow> RValue t a)"

fun kind_of :: "gtype \<Rightarrow> kind" where
  "kind_of TBool = KBool"
| "kind_of TInt = KInt"
| "kind_of TUint8 = KUint8"
| "kind_of (TStr k) = KString"
| "kind_of TAny = KInterface"
| "kind_of TError = KInterface"
| "kind_of TErrorString = KPointer"
| "kind_of THandlerError = KStruct"
| "kind_of (TSlice t) = KSlice"
| "kind_of (TArray n t) = KArray"
| "kind_of (TMap k v) = KMap"
| "kind_of (TFunc ps vd rs) = KFunc"

fun Kind :: "rvalue \<Rightarrow> kind" where
  "Kind ZeroValue = KInvalid"
| "Kind (RValue t v) = kind_of t"

text \<open>
  \<^verbatim>\<open>T.AssignableTo(U)\<close> on the types of the model: identical types, or \<open>U\<close> an interface
  that \<open>T\<close> implements. Every type implements \<^verbatim>\<open>interface{}\<close>; the types with a method
  \<^verbatim>\<open>Error() string\<close> are \<^verbatim>\<open>*errors.errorString\<close> and \<^verbatim>\<open>caddyhttp.HandlerError\<close>.
\<close>

definition AssignableTo :: "gtype \<Rightarrow> gtype \<Rightarrow> bool" where
  "AssignableTo t u =
     (t = u \<or> u = TAny \<or> (u = TError \<and> (t = TErrorString \<or> t = THandlerError)))"

text \<open>The zero value of a type, as \<^verbatim>\<open>reflect.New(t).Elem()\<close> holds it.\<close>

fun Zero :: "gtype \<Rightarrow> gval" where
  "Zero TBool = VBool False"
| "Zero TInt = VInt 0"
| "Zero TUint8 = VUint8 0"
| "Zero (TStr k) = VStr k []"
| "Zero TAny = VNil"
| "Zero TError = VNil"
| "Zero TErrorString = VErrorString None"
| "Zero THandlerError = VHandlerError VNil 0 [] []"
| "Zero (TSlice t) = VSlice t []"
| "Zero (TArray n t) = VArray t (replicate n (Zero t))"
| "Zero (TMap k v) = VMap k v []"
| "Zero (TFunc ps vd rs) = VFunc ps vd rs None"

text \<open>\<^verbatim>\<open>v.Interface()\<close>: the value held, as an \<^verbatim>\<open>any\<close>.\<close>

fun Interface :: "rvalue \<Rightarrow> panic + gval" where
  "Interface ZeroValue = Inl (ValueError ''reflect.Value.Interface'' KInvalid)"
| "Interface (RValue t v) = Inr v"

text \<open>
  The elements \<^verbatim>\<open>v.Index\<close> can reach, with their type: of an array or slice its elements,
  of a string its bytes (as \<^verbatim>\<open>uint8\<close>).
\<close>

fun elements :: "gval \<Rightarrow> rvalue list" where
  "elements (VSlice t xs) = map (RValue t) xs"
| "elements (VArray t xs) = map (RValue t) xs"
| "elements (VStr k s) = map (\<lambda>c. RValue TUint8 (VUint8 (of_char c))) s"
| "elements _ = []"

text \<open>
  \<^verbatim>\<open>v.Index(i)\<close>: for kinds Array, Slice and String it panics when
  \<^verbatim>\<open>uint(i) >= uint(len)\<close> and returns the element otherwise; for every other kind it
  panics with a \<^verbatim>\<open>ValueError\<close>.
\<close>

definition Index :: "rvalue \<Rightarrow> 64 word \<Rightarrow> panic + rvalue" where
  "Index v i =
     (if Kind v = KArray \<or> Kind v = KSlice \<or> Kind v = KString then
        (if unat i \<ge> length (elements (rdata v)) then Inl (IndexOutOfRange (Kind v))
         else Inr (elements (rdata v) ! unat i))
      else Inl (ValueError ''reflect.Value.Index'' (Kind v)))"

section \<open>idx\<close>

text \<open>\<^verbatim>\<open>reflect.ValueOf(arr).Index(idx).Interface()\<close>\<close>

definition funcIdx :: "64 word \<Rightarrow> gval \<Rightarrow> panic + gval" where
  "funcIdx idx arr =
     (case Index (ValueOf arr) idx of
        Inl p \<Rightarrow> Inl p
      | Inr e \<Rightarrow> Interface e)"

text \<open>
  The template engine (\<^verbatim>\<open>text/template\<close>, under \<^verbatim>\<open>html/template\<close>) calls every function of
  the function map through its \<^verbatim>\<open>safeCall\<close>: \<^verbatim>\<open>ret := fun.Call(args)\<close> under a deferred
  \<^verbatim>\<open>recover\<close>, which turns a panic of the call into the call's error; with two results and
  a second one that is not nil, that one is the error; else \<^verbatim>\<open>ret[0]\<close> is the value. On an
  error \<^verbatim>\<open>evalCall\<close> stops the execution and \<^verbatim>\<open>Execute\<close> returns the error to its caller:
  the render fails and the process goes on. In the model \<open>Inl\<close> is that error of the
  render, either a recovered panic or the error the function returned, and \<open>Inr\<close> is the
  value the template goes on with. The argument is the outcome of \<^verbatim>\<open>fun.Call(args)\<close>.
\<close>

datatype exec_error = Recovered panic | Returned gval

definition safeCall :: "panic + gval list \<Rightarrow> exec_error + gval" where
  "safeCall r =
     (case r of
        Inl p \<Rightarrow> Inl (Recovered p)
      | Inr ret \<Rightarrow>
          (case ret of
             [] \<Rightarrow> Inl (Recovered RuntimeIndexOutOfRange)
           | v # rest \<Rightarrow>
               if length ret = 2 \<and> ret ! 1 \<noteq> VNil then Inl (Returned (ret ! 1))
               else Inr v))"

text \<open>
  The template's call \<^verbatim>\<open>idx i seq\<close>: \<^verbatim>\<open>funcIdx\<close> has one result, so \<^verbatim>\<open>fun.Call\<close> returns
  it as a slice of length one, or panics as \<^verbatim>\<open>funcIdx\<close> does.
\<close>

definition idx :: "64 word \<Rightarrow> gval \<Rightarrow> exec_error + gval" where
  "idx i seq = safeCall (case funcIdx i seq of Inl p \<Rightarrow> Inl p | Inr v \<Rightarrow> Inr [v])"

section \<open>try\<close>

text \<open>
  What a function value does when it is called is given by a table from its code to its
  behaviour: the outputs, each as \<^verbatim>\<open>out[i].Interface()\<close> reads it, or the panic it raises.
  Every invocation is logged, so that "the function is not invoked" is the empty log.
\<close>

type_synonym prog = "fid \<Rightarrow> gval list \<Rightarrow> panic + gval list"

type_synonym calls = "(fid \<times> gval list) list"

text \<open>
  \<^verbatim>\<open>fnv.Call(in)\<close> (\<open>isSlice = False\<close>) and \<^verbatim>\<open>fnv.CallSlice(in)\<close> (\<open>isSlice = True\<close>), in the
  order of \<^verbatim>\<open>reflect.Value.call\<close>: the nil function, the number of arguments, zero Values,
  the assignability of each argument to its parameter; \<^verbatim>\<open>Call\<close> on a variadic function
  packs the arguments past the fixed parameters into the slice of the last parameter.
\<close>

fun first_unassignable :: "rvalue list \<Rightarrow> gtype list \<Rightarrow> panic option" where
  "first_unassignable (RValue xt x # ins) (targ # ps) =
     (if AssignableTo xt targ then first_unassignable ins ps
      else Some (NotAssignable xt targ))"
| "first_unassignable _ _ = None"

definition call :: "bool \<Rightarrow> prog \<Rightarrow> rvalue \<Rightarrow> rvalue list \<Rightarrow> calls \<times> (panic + gval list)" where
  "call isSlice prog v ins =
     (case v of
        RValue (TFunc ps vd rs) (VFunc ps' vd' rs' code) \<Rightarrow>
          (case code of
             None \<Rightarrow> ([], Inl CallOfNilFunction)
           | Some f \<Rightarrow>
               let n = (if \<not> isSlice \<and> vd then length ps - 1 else length ps) in
               if isSlice \<and> \<not> vd then ([], Inl CallSliceOfNonVariadic)
               else if length ins < n then ([], Inl TooFewInputArguments)
               else if (isSlice \<or> \<not> vd) \<and> length ins > n then ([], Inl TooManyInputArguments)
               else if ZeroValue \<in> set ins then ([], Inl ZeroValueArgument)
               else
                 (case first_unassignable (take n ins) ps of
                    Some p \<Rightarrow> ([], Inl p)
                  | None \<Rightarrow>
                      if \<not> isSlice \<and> vd then
                        (case last ps of
                           TSlice et \<Rightarrow>
                             (case first_unassignable (drop n ins) (replicate (length ins - n) et) of
                                Some p \<Rightarrow> ([], Inl p)
                              | None \<Rightarrow>
                                  let args = map rdata (take n ins) @ [VSlice et (map rdata (drop n ins))]
                                  in ([(f, args)], prog f args))
                         | _ \<Rightarrow> ([], Inl (ValueError ''reflect.Value.Call'' KFunc)))
                      else ([(f, map rdata ins)], prog f (map rdata ins))))
      | _ \<Rightarrow> ([], Inl (ValueError ''reflect.Value.Call'' (Kind v))))"

abbreviation Call :: "prog \<Rightarrow> rvalue \<Rightarrow> rvalue list \<Rightarrow> calls \<times> (panic + gval list)" where
  "Call \<equiv> call False"

abbreviation CallSlice :: "prog \<Rightarrow> rvalue \<Rightarrow> rvalue list \<Rightarrow> calls \<times> (panic + gval list)" where
  "CallSlice \<equiv> call True"

text \<open>
  \<^verbatim>\<open>fmt\<close>'s \<^verbatim>\<open>%d\<close> of a number that is not negative: its decimal digits.
\<close>

function itoa :: "nat \<Rightarrow> string" where
  "itoa n = (if n < 10 then [''0123456789'' ! n] else itoa (n div 10) @ [''0123456789'' ! (n mod 10)])"
  by pat_completeness auto
termination
  by (relation "measure id") auto

declare itoa.simps [simp del]

text \<open>
  The loop that builds \<^verbatim>\<open>reflectArgs\<close>, at index \<open>i\<close>: an argument that is not nil is passed
  as \<^verbatim>\<open>reflect.ValueOf(a)\<close>, a nil one as the zero value of the parameter type \<^verbatim>\<open>In(i)\<close>,
  which panics when the function has no parameter \<open>i\<close>. The loop runs over the arguments
  given, and adds none.
\<close>

fun reflectArgs :: "gtype list \<Rightarrow> nat \<Rightarrow> gval list \<Rightarrow> panic + rvalue list" where
  "reflectArgs ps i [] = Inr []"
| "reflectArgs ps i (a # as) =
     (case (if a \<noteq> VNil then Inr (ValueOf a)
            else if i < length ps then Inr (RValue (ps ! i) (Zero (ps ! i)))
            else Inl FuncIndexOutOfBounds) of
        Inl p \<Rightarrow> Inl p
      | Inr arg \<Rightarrow>
          (case reflectArgs ps (i + 1) as of
             Inl p \<Rightarrow> Inl p
           | Inr rest \<Rightarrow> Inr (arg # rest)))"

text \<open>
  The type assertion \<^verbatim>\<open>ierr.(error)\<close> succeeds when the dynamic type of the value implements
  \<^verbatim>\<open>error\<close>.
\<close>

definition isError :: "gval \<Rightarrow> bool" where
  "isError v = (case dyntype v of None \<Rightarrow> False | Some t \<Rightarrow> AssignableTo t TError)"

record result =
  Value :: gval
  Error :: gval


text \<open>
  \<^verbatim>\<open>funcTry\<close> returns \<^verbatim>\<open>(*result, error)\<close>: \<open>(None, e)\<close> is \<^verbatim>\<open>(nil, e)\<close> and \<open>(Some r, VNil)\<close>
  is \<^verbatim>\<open>(&r, nil)\<close>. The first component of the model's result is the log of invocations.
  The equations follow the source's tests: \<^verbatim>\<open>fn == nil\<close>; then the values of kind Func,
  which are the function values, with \<open>n\<close> the \<^verbatim>\<open>NumOut()\<close> and \<open>rs ! (n - 1)\<close> the
  \<^verbatim>\<open>Out(n - 1)\<close> of their type; then every value of another kind. \<^verbatim>\<open>out[n-1]\<close> indexes a Go
  slice, which panics past its length.
\<close>

fun funcTry :: "prog \<Rightarrow> gval \<Rightarrow> gval list \<Rightarrow> calls \<times> (panic + result option \<times> gval)" where
  "funcTry prog VNil args = ([], Inr (None, Errorf ''nil func''))"
| "funcTry prog (VFunc ps vd rs code) args =
     (let fnv = ValueOf (VFunc ps vd rs code); n = length rs in
      if n \<noteq> 1 \<and> n \<noteq> 2 then
        ([], Inr (None, Errorf (''cannot call func that has '' @ itoa n @ '' outputs'')))
      else if \<not> AssignableTo (rs ! (n - 1)) TError then
        ([], Inr (None, Errorf ''cannot call func whose last arg is not error''))
      else
        (case reflectArgs ps 0 args of
           Inl p \<Rightarrow> ([], Inl p)
         | Inr ras \<Rightarrow>
             (case (if vd then CallSlice prog fnv ras else Call prog fnv ras) of
                (log, Inl p) \<Rightarrow> (log, Inl p)
              | (log, Inr out) \<Rightarrow>
                  if length out \<le> n - 1 then (log, Inl RuntimeIndexOutOfRange)
                  else
                    let ierr = out ! (n - 1) in
                    if ierr \<noteq> VNil \<and> \<not> isError ierr then
                      (log, Inl InterfaceConversion)
                    else
                      (log, Inr (Some \<lparr>Value = (if n > 1 then out ! 0 else VNil), Error = ierr\<rparr>,
                                 VNil)))))"
| "funcTry prog fn args = ([], Inr (None, Errorf ''not a function''))"

section \<open>sanitizeHtml\<close>




section \<open>markdown\<close>

text \<open>
  \<^verbatim>\<open>caddy.ToString\<close> and the markdown converter are inputs of the model: \<open>Convert src\<close> is
  what \<^verbatim>\<open>md.Convert\<close> writes to the buffer, which \<^verbatim>\<open>buf.Reset()\<close> has emptied, and the
  error it returns. The declared result type of \<^verbatim>\<open>funcMarkdown\<close> is \<^verbatim>\<open>(string, error)\<close>.
\<close>

definition funcMarkdown :: "(gval \<Rightarrow> string) \<Rightarrow> (string \<Rightarrow> string \<times> gval) \<Rightarrow> gval \<Rightarrow> gval \<times> gval" where
  "funcMarkdown ToString Convert input =
     (let inputStr = ToString input;
          (buf, err) = Convert inputStr
      in if err \<noteq> VNil then (VStr GoString [], err)
         else (VStr GoString buf, VNil))"

section \<open>humanize\<close>

text \<open>\<^verbatim>\<open>strings.Split(s, sep)\<close> for a separator of one byte.\<close>

fun Split :: "string \<Rightarrow> char \<Rightarrow> string list" where
  "Split [] sep = [[]]"
| "Split (c # cs) sep =
     (if c = sep then [] # Split cs sep
      else (case Split cs sep of
              [] \<Rightarrow> [[c]]
            | p # ps \<Rightarrow> (c # p) # ps))"

text \<open>
  \<^verbatim>\<open>strconv.ParseUint(s, 10, 64)\<close>: the empty string and every byte that is not a decimal
  digit are a syntax error (base 10 takes no sign, no prefix and no underscore); a value
  above \<open>2 ^ 64 - 1\<close> is a range error, found at the digit that overflows.
\<close>

datatype num_error = ErrSyntax | ErrRange

definition digit_of :: "char \<Rightarrow> nat option" where
  "digit_of c =
     (if (48 :: nat) \<le> of_char c \<and> of_char c \<le> (57 :: nat) then Some (of_char c - 48) else None)"

fun parse_digits :: "nat \<Rightarrow> string \<Rightarrow> num_error + nat" where
  "parse_digits n [] = Inr n"
| "parse_digits n (c # cs) =
     (case digit_of c of
        None \<Rightarrow> Inl ErrSyntax
      | Some d \<Rightarrow>
          if n \<ge> 1844674407370955162 then Inl ErrRange
          else if n * 10 + d > 18446744073709551615 then Inl ErrRange
          else parse_digits (n * 10 + d) cs)"

definition ParseUint :: "string \<Rightarrow> num_error + 64 word" where
  "ParseUint s =
     (if s = [] then Inl ErrSyntax
      else (case parse_digits 0 s of Inl e \<Rightarrow> Inl e | Inr n \<Rightarrow> Inr (of_nat n)))"

text \<open>
  The message of a \<^verbatim>\<open>*strconv.NumError\<close>; \<^verbatim>\<open>strconv.Quote\<close> is an input of the model.
\<close>

definition NumError_Error :: "(string \<Rightarrow> string) \<Rightarrow> string \<Rightarrow> num_error \<Rightarrow> string" where
  "NumError_Error Quote num e =
     ''strconv.ParseUint: parsing '' @ Quote num @ '': '' @
       (case e of ErrSyntax \<Rightarrow> ''invalid syntax'' | ErrRange \<Rightarrow> ''value out of range'')"

text \<open>
  \<^verbatim>\<open>humanize.Bytes(s)\<close> of the humanization library: below 10 it prints \<^verbatim>\<open>"%d B"\<close>; else,
  with \<open>e = \<lfloor>log\<^sub>1\<^sub>0\<^sub>0\<^sub>0 s\<rfloor>\<close> and \<open>val = \<lfloor>s / 1000 ^ e * 10 + 0.5\<rfloor> / 10\<close>, it prints \<open>val\<close> with
  \<^verbatim>\<open>"%.1f"\<close> when \<open>val < 10\<close> and with \<^verbatim>\<open>"%.0f"\<close> otherwise, followed by the unit. The library
  computes in \<^verbatim>\<open>float64\<close>; the model computes the same formula exactly, on \<open>t = 10 * val\<close>.
  It is used for the example of the specification only; \<^verbatim>\<open>funcHumanize\<close> takes the library
  function as an input.
\<close>

function logn1000 :: "nat \<Rightarrow> nat" where
  "logn1000 n = (if n < 1000 then 0 else Suc (logn1000 (n div 1000)))"
  by pat_completeness auto
termination
  by (relation "measure id") auto

declare logn1000.simps [simp del]

definition humanize_Bytes :: "64 word \<Rightarrow> string" where
  "humanize_Bytes w =
     (let s = unat w in
      if s < 10 then itoa s @ '' B''
      else
        let e = logn1000 s;
            suffix = [''B'', ''kB'', ''MB'', ''GB'', ''TB'', ''PB'', ''EB''] ! e;
            t = (s * 20 + 1000 ^ e) div (2 * 1000 ^ e)
        in if t < 100 then itoa (t div 10) @ ''.'' @ itoa (t mod 10) @ '' '' @ suffix
           else itoa (if t mod 10 > 5 \<or> (t mod 10 = 5 \<and> odd (t div 10)) then t div 10 + 1
                      else t div 10) @ '' '' @ suffix)"

definition RFC1123Z :: string where
  "RFC1123Z = ''Mon, 02 Jan 2006 15:04:05 -0700''"

text \<open>
  \<^verbatim>\<open>funcHumanize\<close>. The libraries are inputs of the model: \<open>Bytes\<close> is \<^verbatim>\<open>humanize.Bytes\<close>,
  \<open>Parse layout value\<close> is \<^verbatim>\<open>time.Parse\<close> (a time, or the message of its error) and \<open>Time\<close>
  is \<^verbatim>\<open>humanize.Time\<close>, which reads the clock. \<open>Split\<close> never returns the empty list, so
  \<^verbatim>\<open>parts[0]\<close> is \<open>hd parts\<close>.
\<close>

definition funcHumanize ::
  "(string \<Rightarrow> string) \<Rightarrow> (64 word \<Rightarrow> string) \<Rightarrow> (string \<Rightarrow> string \<Rightarrow> string + 't) \<Rightarrow> ('t \<Rightarrow> string)
   \<Rightarrow> string \<Rightarrow> string \<Rightarrow> gval \<times> gval" where
  "funcHumanize Quote Bytes Parse Time formatType data =
     (let parts = Split formatType CHR '':'' in
      if hd parts = ''size'' then
        (case ParseUint data of
           Inl dataerr \<Rightarrow>
             (VStr GoString [],
              Errorf (''humanize: size cannot be parsed: '' @ NumError_Error Quote data dataerr))
         | Inr dataint \<Rightarrow> (VStr GoString (Bytes dataint), VNil))
      else if hd parts = ''time'' then
        (let timelayout =
               (if length parts > 1 then drop (length (hd parts) + 1) formatType else RFC1123Z)
         in case Parse timelayout data of
              Inl msg \<Rightarrow>
                (VStr GoString [], Errorf (''humanize: time cannot be parsed: '' @ msg))
            | Inr dataint \<Rightarrow> (VStr GoString (Time dataint), VNil))
      else (VStr GoString [], Errorf ''no know function was given''))"

section \<open>Theorems\<close>

text \<open>
  C10. Every trust marker preserves its content: the value it returns holds exactly the
  bytes of the argument, and only the type, which selects the escaping context, changes.
\<close>

theorem trust_markers_preserve_content:
  "funcTrustHtml s = VStr HTML s \<and> string_of (funcTrustHtml s) = Some s
   \<and> funcTrustAttr s = VStr HTMLAttr s \<and> string_of (funcTrustAttr s) = Some s
   \<and> funcTrustJS s = VStr JS s \<and> string_of (funcTrustJS s) = Some s
   \<and> funcTrustJSStr s = VStr JSStr s \<and> string_of (funcTrustJSStr s) = Some s
   \<and> funcTrustSrcSet s = VStr Srcset s \<and> string_of (funcTrustSrcSet s) = Some s"
  by (simp add: funcTrustHtml_def funcTrustAttr_def funcTrustJS_def funcTrustJSStr_def
      funcTrustSrcSet_def)

text \<open>
  C8. For every status code, \<^verbatim>\<open>httpError\<close> returns \<^verbatim>\<open>false\<close> together with a non-nil error:
  a \<^verbatim>\<open>HandlerError\<close> that carries exactly that status code and no wrapped cause. No input
  makes it return a nil error.
\<close>

theorem funcHTTPError_carries_status:
  "snd (funcHTTPError rid tr statusCode) \<noteq> VNil
   \<and> fst (funcHTTPError rid tr statusCode) = False
   \<and> StatusCode (snd (funcHTTPError rid tr statusCode)) = statusCode
   \<and> Err (snd (funcHTTPError rid tr statusCode)) = VNil
   \<and> funcHTTPError rid tr statusCode = (False, VHandlerError VNil statusCode rid tr)"
  by (simp add: funcHTTPError_def caddyhttp_Error_def)

subsection \<open>Indexing\<close>

text \<open>An \<^verbatim>\<open>int\<close> read as \<^verbatim>\<open>uint\<close>: the comparison \<^verbatim>\<open>uint(i) >= uint(len)\<close> of \<^verbatim>\<open>Index\<close>.\<close>

lemma uint_of_sint: "uint (i :: 64 word) = (if 0 \<le> sint i then sint i else sint i + 2 ^ 64)"
proof -
  have lo: "- (2 ^ 63) \<le> sint i" using sint_ge [of i] by simp
  have hi: "sint i < 2 ^ 63" using sint_lt [of i] by simp
  have u: "uint i = sint i mod 2 ^ 64"
    using uint_sint [of i] by (simp add: take_bit_eq_mod)
  show ?thesis
  proof (cases "0 \<le> sint i")
    case True
    with hi u show ?thesis by simp
  next
    case False
    have "(sint i + 2 ^ 64) mod 2 ^ 64 = sint i + 2 ^ 64"
      using lo False by (intro mod_pos_pos_trivial) simp_all
    then have "sint i mod 2 ^ 64 = sint i + 2 ^ 64" by simp
    with u False show ?thesis by simp
  qed
qed

lemma unat_less_iff_uint: "(unat (i :: 64 word) < n) = (uint i < int n)"
proof -
  have "int (unat i) = uint i" by simp
  then show ?thesis by linarith
qed

lemma sint_nonneg_unat: "0 \<le> sint (i :: 64 word) \<Longrightarrow> unat i = nat (sint i)"
proof -
  assume "0 \<le> sint i"
  then have "uint i = sint i" by (simp add: uint_of_sint)
  moreover have "int (unat i) = uint i" by simp
  ultimately show ?thesis by linarith
qed

lemma in_range_iff:
  "int (length xs) < 2 ^ 63 \<Longrightarrow>
   (unat (i :: 64 word) < length xs) = (0 \<le> sint i \<and> sint i < int (length xs))"
proof -
  assume b: "int (length xs) < 2 ^ 63"
  have lo: "- (2 ^ 63) \<le> sint i" using sint_ge [of i] by simp
  show ?thesis
  proof (cases "0 \<le> sint i")
    case True
    then show ?thesis by (simp add: unat_less_iff_uint uint_of_sint)
  next
    case False
    then have "uint i = sint i + 2 ^ 64" by (simp add: uint_of_sint)
    with lo b have "\<not> uint i < int (length xs)" by simp
    with False show ?thesis by (simp add: unat_less_iff_uint)
  qed
qed

lemma funcIdx_sequence:
  "Kind (ValueOf arr) = KArray \<or> Kind (ValueOf arr) = KSlice \<or> Kind (ValueOf arr) = KString \<Longrightarrow>
   funcIdx i arr =
     (if unat i < length (elements arr) then Interface (elements arr ! unat i)
      else Inl (IndexOutOfRange (Kind (ValueOf arr))))"
  by (cases arr) (auto simp: funcIdx_def Index_def ValueOf_def)

lemma funcIdx_other:
  "Kind (ValueOf arr) \<noteq> KArray \<Longrightarrow> Kind (ValueOf arr) \<noteq> KSlice \<Longrightarrow> Kind (ValueOf arr) \<noteq> KString \<Longrightarrow>
   funcIdx i arr = Inl (ValueError ''reflect.Value.Index'' (Kind (ValueOf arr)))"
  by (simp add: funcIdx_def Index_def)

text \<open>What \<^verbatim>\<open>funcIdx\<close> itself returns, case by case.\<close>

lemma funcIdx_cases:
  fixes i :: "64 word"
  shows
  "(0 \<le> sint i \<and> sint i < int (length xs) \<longrightarrow>
       funcIdx i (VSlice t xs) = Inr (xs ! nat (sint i))
     \<and> funcIdx i (VArray t xs) = Inr (xs ! nat (sint i)))
   \<and> (0 \<le> sint i \<and> sint i < int (length s) \<longrightarrow>
       funcIdx i (VStr k s) = Inr (VUint8 (of_char (s ! nat (sint i)))))
   \<and> (int (length xs) < 2 ^ 63 \<and> \<not> (0 \<le> sint i \<and> sint i < int (length xs)) \<longrightarrow>
       funcIdx i (VSlice t xs) = Inl (IndexOutOfRange KSlice)
     \<and> funcIdx i (VArray t xs) = Inl (IndexOutOfRange KArray))
   \<and> (int (length s) < 2 ^ 63 \<and> \<not> (0 \<le> sint i \<and> sint i < int (length s)) \<longrightarrow>
       funcIdx i (VStr k s) = Inl (IndexOutOfRange KString))
   \<and> (Kind (ValueOf arr) \<noteq> KArray \<and> Kind (ValueOf arr) \<noteq> KSlice \<and> Kind (ValueOf arr) \<noteq> KString \<longrightarrow>
       funcIdx i arr = Inl (ValueError ''reflect.Value.Index'' (Kind (ValueOf arr))))"
proof (intro conjI impI)
  assume r: "0 \<le> sint i \<and> sint i < int (length xs)"
  then have u: "unat i = nat (sint i)" "nat (sint i) < length xs"
    by (simp add: sint_nonneg_unat, linarith)
  show "funcIdx i (VSlice t xs) = Inr (xs ! nat (sint i))"
    using u by (simp add: funcIdx_sequence ValueOf_def)
  show "funcIdx i (VArray t xs) = Inr (xs ! nat (sint i))"
    using u by (simp add: funcIdx_sequence ValueOf_def)
next
  assume r: "0 \<le> sint i \<and> sint i < int (length s)"
  then have u: "unat i = nat (sint i)" "nat (sint i) < length s"
    by (simp add: sint_nonneg_unat, linarith)
  show "funcIdx i (VStr k s) = Inr (VUint8 (of_char (s ! nat (sint i))))"
    using u by (simp add: funcIdx_sequence ValueOf_def)
next
  assume r: "int (length xs) < 2 ^ 63 \<and> \<not> (0 \<le> sint i \<and> sint i < int (length xs))"
  then have u: "\<not> unat i < length xs"
    using in_range_iff [of xs i] by simp
  show "funcIdx i (VSlice t xs) = Inl (IndexOutOfRange KSlice)"
    using u by (simp add: funcIdx_sequence ValueOf_def)
  show "funcIdx i (VArray t xs) = Inl (IndexOutOfRange KArray)"
    using u by (simp add: funcIdx_sequence ValueOf_def)
next
  assume r: "int (length s) < 2 ^ 63 \<and> \<not> (0 \<le> sint i \<and> sint i < int (length s))"
  then have u: "\<not> unat i < length s"
    using in_range_iff [of s i] by simp
  show "funcIdx i (VStr k s) = Inl (IndexOutOfRange KString)"
    using u by (simp add: funcIdx_sequence ValueOf_def)
next
  assume "Kind (ValueOf arr) \<noteq> KArray \<and> Kind (ValueOf arr) \<noteq> KSlice \<and> Kind (ValueOf arr) \<noteq> KString"
  then show "funcIdx i arr = Inl (ValueError ''reflect.Value.Index'' (Kind (ValueOf arr)))"
    by (simp add: funcIdx_other)
qed


text \<open>The engine's call passes the element on and turns the panic into the render's error.\<close>

lemma idx_funcIdx:
  "idx i seq = (case funcIdx i seq of Inl p \<Rightarrow> Inl (Recovered p) | Inr v \<Rightarrow> Inr v)"
  by (simp add: idx_def safeCall_def split: sum.splits)

text \<open>
  C9. \<^verbatim>\<open>idx i seq\<close> returns the element at position \<open>i\<close> when \<open>seq\<close> is an array, a slice
  or a string (whose elements are its bytes) and \<open>0 \<le> i < len seq\<close>. When \<open>i\<close> is out of
  range, and when \<open>seq\<close> is of any other kind (nil included), \<^verbatim>\<open>funcIdx\<close> returns no value:
  it ends in a panic of \<^verbatim>\<open>reflect\<close>, and has no \<^verbatim>\<open>recover\<close> of its own. The template's call
  of it goes through the engine's \<^verbatim>\<open>safeCall\<close>, which recovers that panic: the call yields
  the error that ends the render, not a value, and the panic does not leave the call.
  Go's lengths are \<^verbatim>\<open>int\<close>s, hence below \<open>2 ^ 63\<close>.
\<close>

theorem funcIdx_element_or_failure:
  fixes i :: "64 word"
  shows
  "(0 \<le> sint i \<and> sint i < int (length xs) \<longrightarrow>
       funcIdx i (VSlice t xs) = Inr (xs ! nat (sint i))
     \<and> idx i (VSlice t xs) = Inr (xs ! nat (sint i))
     \<and> funcIdx i (VArray t xs) = Inr (xs ! nat (sint i))
     \<and> idx i (VArray t xs) = Inr (xs ! nat (sint i)))
   \<and> (0 \<le> sint i \<and> sint i < int (length s) \<longrightarrow>
       funcIdx i (VStr k s) = Inr (VUint8 (of_char (s ! nat (sint i))))
     \<and> idx i (VStr k s) = Inr (VUint8 (of_char (s ! nat (sint i)))))
   \<and> (int (length xs) < 2 ^ 63 \<and> \<not> (0 \<le> sint i \<and> sint i < int (length xs)) \<longrightarrow>
       funcIdx i (VSlice t xs) = Inl (IndexOutOfRange KSlice)
     \<and> idx i (VSlice t xs) = Inl (Recovered (IndexOutOfRange KSlice))
     \<and> funcIdx i (VArray t xs) = Inl (IndexOutOfRange KArray)
     \<and> idx i (VArray t xs) = Inl (Recovered (IndexOutOfRange KArray)))
   \<and> (int (length s) < 2 ^ 63 \<and> \<not> (0 \<le> sint i \<and> sint i < int (length s)) \<longrightarrow>
       funcIdx i (VStr k s) = Inl (IndexOutOfRange KString)
     \<and> idx i (VStr k s) = Inl (Recovered (IndexOutOfRange KString)))
   \<and> (Kind (ValueOf arr) \<noteq> KArray \<and> Kind (ValueOf arr) \<noteq> KSlice \<and> Kind (ValueOf arr) \<noteq> KString \<longrightarrow>
       funcIdx i arr = Inl (ValueError ''reflect.Value.Index'' (Kind (ValueOf arr)))
     \<and> idx i arr = Inl (Recovered (ValueError ''reflect.Value.Index'' (Kind (ValueOf arr)))))"
  using funcIdx_cases [of i xs t s k arr] by (simp add: idx_funcIdx)

theorem funcIdx_element_or_failure_witness:
  "funcIdx 1 (VSlice TInt [VInt 5, VInt 6]) = Inr (VInt 6)
   \<and> idx 1 (VSlice TInt [VInt 5, VInt 6]) = Inr (VInt 6)
   \<and> idx 1 (VArray TInt [VInt 5, VInt 6]) = Inr (VInt 6)
   \<and> idx 2 (VStr HTML ''abc'') = Inr (VUint8 99)
   \<and> funcIdx (- 1) (VSlice TInt [VInt 5, VInt 6]) = Inl (IndexOutOfRange KSlice)
   \<and> idx (- 1) (VSlice TInt [VInt 5, VInt 6]) = Inl (Recovered (IndexOutOfRange KSlice))
   \<and> idx 2 (VArray TInt [VInt 5, VInt 6]) = Inl (Recovered (IndexOutOfRange KArray))
   \<and> idx 3 (VStr HTML ''abc'') = Inl (Recovered (IndexOutOfRange KString))
   \<and> funcIdx 1 (VInt 5) = Inl (ValueError ''reflect.Value.Index'' KInt)
   \<and> idx 1 (VInt 5) = Inl (Recovered (ValueError ''reflect.Value.Index'' KInt))
   \<and> idx 0 VNil = Inl (Recovered (ValueError ''reflect.Value.Index'' KInvalid))"
  using funcIdx_element_or_failure [where i = 1 and xs = "[VInt 5, VInt 6]" and s = "''abc''" and t = TInt and k = HTML and arr = "VInt 5"]
    funcIdx_element_or_failure [where i = 2 and xs = "[VInt 5, VInt 6]" and s = "''abc''" and t = TInt and k = HTML and arr = VNil]
    funcIdx_element_or_failure [where i = "- 1" and xs = "[VInt 5, VInt 6]" and s = "''abc''" and t = TInt and k = HTML and arr = VNil]
    funcIdx_element_or_failure [where i = 3 and xs = "[VInt 5, VInt 6]" and s = "''abc''" and t = TInt and k = HTML and arr = VNil]
    funcIdx_element_or_failure [where i = 0 and xs = "[VInt 5, VInt 6]" and s = "''abc''" and t = TInt and k = HTML and arr = VNil]
  by (simp add: ValueOf_def)

subsection \<open>try\<close>

text \<open>
  C1. \<^verbatim>\<open>try\<close> validates before it calls. For \<open>fn\<close> nil, for \<open>fn\<close> of a kind other than
  Func, for a function whose number of outputs is neither 1 nor 2, and for a function
  whose last output type is not assignable to \<^verbatim>\<open>error\<close>, it returns no result and an error
  with a message that names the reason; the log of invocations is empty and the answer
  does not depend on what the function would do.
\<close>

theorem funcTry_rejects_without_calling:
  "funcTry prog VNil args = ([], Inr (None, Errorf ''nil func''))
   \<and> (fn \<noteq> VNil \<and> Kind (ValueOf fn) \<noteq> KFunc \<longrightarrow>
        funcTry prog fn args = ([], Inr (None, Errorf ''not a function'')))
   \<and> (length rs \<noteq> 1 \<and> length rs \<noteq> 2 \<longrightarrow>
        funcTry prog (VFunc ps vd rs code) args =
          ([], Inr (None, Errorf (''cannot call func that has '' @ itoa (length rs) @ '' outputs''))))
   \<and> ((length rs = 1 \<or> length rs = 2) \<and> \<not> AssignableTo (last rs) TError \<longrightarrow>
        funcTry prog (VFunc ps vd rs code) args =
          ([], Inr (None, Errorf ''cannot call func whose last arg is not error'')))"
proof (intro conjI impI)
  show "funcTry prog VNil args = ([], Inr (None, Errorf ''nil func''))"
    by simp
next
  assume "fn \<noteq> VNil \<and> Kind (ValueOf fn) \<noteq> KFunc"
  then show "funcTry prog fn args = ([], Inr (None, Errorf ''not a function''))"
    by (cases fn) (simp_all add: ValueOf_def)
next
  assume "length rs \<noteq> 1 \<and> length rs \<noteq> 2"
  then show "funcTry prog (VFunc ps vd rs code) args =
      ([], Inr (None, Errorf (''cannot call func that has '' @ itoa (length rs) @ '' outputs'')))"
    by simp
next
  assume a: "(length rs = 1 \<or> length rs = 2) \<and> \<not> AssignableTo (last rs) TError"
  then have "rs \<noteq> []" by auto
  then have "rs ! (length rs - 1) = last rs" by (simp add: last_conv_nth)
  with a show "funcTry prog (VFunc ps vd rs code) args =
      ([], Inr (None, Errorf ''cannot call func whose last arg is not error''))"
    by auto
qed

theorem funcTry_rejects_without_calling_witness:
  "funcTry (\<lambda>f a. Inr [VInt 7, VNil]) VNil [VInt 1] = ([], Inr (None, Errorf ''nil func''))
   \<and> funcTry (\<lambda>f a. Inr [VInt 7, VNil]) (VInt 3) [VInt 1] = ([], Inr (None, Errorf ''not a function''))
   \<and> funcTry (\<lambda>f a. Inr [VInt 7, VNil]) (VStr GoString ''f'') [] = ([], Inr (None, Errorf ''not a function''))
   \<and> funcTry (\<lambda>f a. Inr []) (VFunc [] False [] (Some 0)) [] =
       ([], Inr (None, Errorf ''cannot call func that has 0 outputs''))
   \<and> funcTry (\<lambda>f a. Inr [VInt 7, VInt 8, VNil]) (VFunc [] False [TInt, TInt, TError] (Some 0)) [] =
       ([], Inr (None, Errorf ''cannot call func that has 3 outputs''))
   \<and> funcTry (\<lambda>f a. Inr [VInt 7, VStr GoString ''x'']) (VFunc [] False [TInt, TStr GoString] (Some 0)) [] =
       ([], Inr (None, Errorf ''cannot call func whose last arg is not error''))
   \<and> funcTry (\<lambda>f a. Inr [VInt 7]) (VFunc [TInt] False [TInt] (Some 0)) [VInt 1] =
       ([], Inr (None, Errorf ''cannot call func whose last arg is not error''))"
  using
    funcTry_rejects_without_calling [where prog = "\<lambda>f a. Inr [VInt 7, VNil]" and fn = "VInt 3"
      and args = "[VInt 1]" and rs = "[]" and ps = "[]" and vd = False and code = "Some 0"]
    funcTry_rejects_without_calling [where prog = "\<lambda>f a. Inr [VInt 7, VNil]" and fn = "VStr GoString ''f''"
      and args = "[]" and rs = "[]" and ps = "[]" and vd = False and code = "Some 0"]
    funcTry_rejects_without_calling [where prog = "\<lambda>f a. Inr []" and fn = "VInt 3"
      and args = "[]" and rs = "[]" and ps = "[]" and vd = False and code = "Some 0"]
    funcTry_rejects_without_calling [where prog = "\<lambda>f a. Inr [VInt 7, VInt 8, VNil]" and fn = "VInt 3"
      and args = "[]" and rs = "[TInt, TInt, TError]" and ps = "[]" and vd = False and code = "Some 0"]
    funcTry_rejects_without_calling [where prog = "\<lambda>f a. Inr [VInt 7, VStr GoString ''x'']" and fn = "VInt 3"
      and args = "[]" and rs = "[TInt, TStr GoString]" and ps = "[]" and vd = False and code = "Some 0"]
    funcTry_rejects_without_calling [where prog = "\<lambda>f a. Inr [VInt 7]" and fn = "VInt 3"
      and args = "[VInt 1]" and rs = "[TInt]" and ps = "[TInt]" and vd = False and code = "Some 0"]
  by (simp add: ValueOf_def AssignableTo_def itoa.simps)

text \<open>A call that returns outputs has invoked the function once, and the outputs are its own.\<close>

lemma call_returns:
  "call b prog v ins = (log, Inr out) \<Longrightarrow> \<exists>f actual. log = [(f, actual)] \<and> prog f actual = Inr out"
  by (auto simp: call_def Let_def split: rvalue.splits gtype.splits gval.splits option.splits if_splits)






text \<open>
  The argument loop, when the function has a parameter for every argument given: each
  argument that is not nil is kept, each nil one becomes the zero value of its parameter.
\<close>

lemma reflectArgs_zip:
  "i + length args \<le> length ps \<Longrightarrow>
   reflectArgs ps i args =
     Inr (map (\<lambda>(a, t). if a \<noteq> VNil then ValueOf a else RValue t (Zero t)) (zip args (drop i ps)))"
proof (induction args arbitrary: i)
  case Nil
  then show ?case by simp
next
  case (Cons a as)
  then have i: "i < length ps" and r: "Suc i + length as \<le> length ps" by simp_all
  from i have d: "drop i ps = ps ! i # drop (Suc i) ps" by (simp add: Cons_nth_drop_Suc)
  show ?case using Cons.IH [OF r] i by (simp add: d)
qed

lemma reflectArgs_length:
  "reflectArgs ps i args = Inr ras \<Longrightarrow> length ras = length args"
  by (induction args arbitrary: i ras) (auto split: if_splits sum.splits)


lemma ValueOf_RValue: "a \<noteq> VNil \<Longrightarrow> ValueOf a = RValue (the (dyntype a)) a"
  by (cases a) (simp_all add: ValueOf_def)

lemma filled_no_ZeroValue:
  "ZeroValue \<notin> set (map (\<lambda>(a, t). if a \<noteq> VNil then ValueOf a else RValue t (Zero t)) (zip args ps))"
  by (auto simp: ValueOf_RValue split: if_splits)

lemma filled_rdata:
  "map rdata (map (\<lambda>(a, t). if a \<noteq> VNil then ValueOf a else RValue t (Zero t)) (zip args ps)) =
   map (\<lambda>(a, t). if a \<noteq> VNil then a else Zero t) (zip args ps)"
  by (auto simp: ValueOf_RValue)

lemma filled_assignable:
  "list_all2 (\<lambda>a t. case dyntype a of None \<Rightarrow> True | Some u \<Rightarrow> AssignableTo u t) args ps \<Longrightarrow>
   first_unassignable (map (\<lambda>(a, t). if a \<noteq> VNil then ValueOf a else RValue t (Zero t)) (zip args ps)) ps = None"
proof (induction args ps rule: list_all2_induct)
  case Nil
  then show ?case by simp
next
  case (Cons a t as ts)
  then show ?case
    by (cases a) (simp_all add: ValueOf_def AssignableTo_def)
qed

lemma funcTry_log:
  "(length rs = 1 \<or> length rs = 2) \<Longrightarrow> AssignableTo (last rs) TError \<Longrightarrow>
   reflectArgs ps 0 args = Inr ras \<Longrightarrow>
   fst (funcTry prog (VFunc ps vd rs code) args) =
   fst (if vd then CallSlice prog (ValueOf (VFunc ps vd rs code)) ras
        else Call prog (ValueOf (VFunc ps vd rs code)) ras)"
proof -
  assume a: "length rs = 1 \<or> length rs = 2" and b: "AssignableTo (last rs) TError"
    and r: "reflectArgs ps 0 args = Inr ras"
  from a have "rs \<noteq> []" by auto
  then have l: "rs ! (length rs - 1) = last rs" by (simp add: last_conv_nth)
  obtain log res where c: "(if vd then CallSlice prog (ValueOf (VFunc ps vd rs code)) ras
        else Call prog (ValueOf (VFunc ps vd rs code)) ras) = (log, res)"
    by (cases "(if vd then CallSlice prog (ValueOf (VFunc ps vd rs code)) ras
        else Call prog (ValueOf (VFunc ps vd rs code)) ras)") auto
  show ?thesis
    using a b l r c by (cases res) (auto simp: Let_def split: if_splits)
qed

text \<open>
  C3, as the code has it. The loop replaces nil arguments only: when no more arguments
  are given than the function has parameters, argument \<open>i\<close> is passed as it is, or as the
  zero value of parameter \<open>i\<close> when it is nil; a function that is not variadic, given as
  many arguments as it has parameters, each nil or assignable to its parameter, is invoked
  once on exactly these values. Missing trailing arguments are not filled in: with fewer
  arguments than parameters \<^verbatim>\<open>reflect\<close> refuses the call (too few input arguments), the
  function is not invoked and \<^verbatim>\<open>try\<close> ends in that panic.
\<close>

theorem funcTry_fills_nil_arguments_only:
  "(length args \<le> length ps \<longrightarrow>
      reflectArgs ps 0 args =
        Inr (map (\<lambda>(a, t). if a \<noteq> VNil then ValueOf a else RValue t (Zero t)) (zip args ps)))
   \<and> ((length rs = 1 \<or> length rs = 2) \<and> AssignableTo (last rs) TError
      \<and> list_all2 (\<lambda>a t. case dyntype a of None \<Rightarrow> True | Some u \<Rightarrow> AssignableTo u t) args ps \<longrightarrow>
      fst (funcTry prog (VFunc ps False rs (Some f)) args) =
        [(f, map (\<lambda>(a, t). if a \<noteq> VNil then a else Zero t) (zip args ps))])
   \<and> ((length rs = 1 \<or> length rs = 2) \<and> AssignableTo (last rs) TError \<and> length args < length ps \<longrightarrow>
      funcTry prog (VFunc ps vd rs (Some f)) args = ([], Inl TooFewInputArguments))"
proof (intro conjI impI)
  assume "length args \<le> length ps"
  then show "reflectArgs ps 0 args =
        Inr (map (\<lambda>(a, t). if a \<noteq> VNil then ValueOf a else RValue t (Zero t)) (zip args ps))"
    using reflectArgs_zip [of 0 args ps] by simp
next
  let ?ras = "map (\<lambda>(a, t). if a \<noteq> VNil then ValueOf a else RValue t (Zero t)) (zip args ps)"
  assume a: "(length rs = 1 \<or> length rs = 2) \<and> AssignableTo (last rs) TError
      \<and> list_all2 (\<lambda>a t. case dyntype a of None \<Rightarrow> True | Some u \<Rightarrow> AssignableTo u t) args ps"
  then have n: "length args = length ps" by (auto dest: list_all2_lengthD)
  then have r: "reflectArgs ps 0 args = Inr ?ras"
    using reflectArgs_zip [of 0 args ps] by simp
  have u: "first_unassignable ?ras ps = None" using a by (simp add: filled_assignable)
  have z: "ZeroValue \<notin> set ?ras" by (rule filled_no_ZeroValue)
  have "length ?ras = length ps" using n by simp
  then have c: "fst (Call prog (ValueOf (VFunc ps False rs (Some f))) ?ras) = [(f, map rdata ?ras)]"
    using u z by (simp add: call_def ValueOf_def)
  have A: "length rs = 1 \<or> length rs = 2" and B: "AssignableTo (last rs) TError"
    using a by simp_all
  have "fst (funcTry prog (VFunc ps False rs (Some f)) args) =
      fst (Call prog (ValueOf (VFunc ps False rs (Some f))) ?ras)"
    using funcTry_log [OF A B r, of prog False "Some f"] by (simp del: funcTry.simps)
  also have "\<dots> = [(f, map rdata ?ras)]" by (rule c)
  finally show "fst (funcTry prog (VFunc ps False rs (Some f)) args) =
        [(f, map (\<lambda>(a, t). if a \<noteq> VNil then a else Zero t) (zip args ps))]"
    by (simp only: filled_rdata)
next
  assume a: "(length rs = 1 \<or> length rs = 2) \<and> AssignableTo (last rs) TError \<and> length args < length ps"
  then have "rs \<noteq> []" by auto
  then have l: "rs ! (length rs - 1) = last rs" by (simp add: last_conv_nth)
  from a obtain ras where r: "reflectArgs ps 0 args = Inr ras"
    using reflectArgs_zip [of 0 args ps] by simp
  then have n: "length ras = length args" by (rule reflectArgs_length)
  have "call vd prog (ValueOf (VFunc ps vd rs (Some f))) ras = ([], Inl TooFewInputArguments)"
    using a n by (simp add: call_def ValueOf_def)
  then have c: "(if vd then CallSlice prog (ValueOf (VFunc ps vd rs (Some f))) ras
       else Call prog (ValueOf (VFunc ps vd rs (Some f))) ras) = ([], Inl TooFewInputArguments)"
    by (cases vd) simp_all
  show "funcTry prog (VFunc ps vd rs (Some f)) args = ([], Inl TooFewInputArguments)"
    using a l r c by (auto simp: Let_def split: if_splits)
qed

theorem funcTry_fills_nil_arguments_only_witness:
  "reflectArgs [TInt, TStr GoString] 0 [VNil, VStr GoString ''a''] =
     Inr [RValue TInt (VInt 0), RValue (TStr GoString) (VStr GoString ''a'')]
   \<and> fst (funcTry (\<lambda>f a. Inr [VInt 7, VNil]) (VFunc [TInt, TStr GoString] False [TInt, TError] (Some 0))
        [VNil, VStr GoString ''a'']) = [(0, [VInt 0, VStr GoString ''a''])]
   \<and> funcTry (\<lambda>f a. Inr [VInt 7, VNil]) (VFunc [TInt, TStr GoString] False [TInt, TError] (Some 0)) [VNil] =
       ([], Inl TooFewInputArguments)"
  using
    funcTry_fills_nil_arguments_only [where args = "[VNil, VStr GoString ''a'']"
      and ps = "[TInt, TStr GoString]" and rs = "[TInt, TError]" and vd = False and f = 0
      and prog = "\<lambda>f a. Inr [VInt 7, VNil]"]
    funcTry_fills_nil_arguments_only [where args = "[VNil]"
      and ps = "[TInt, TStr GoString]" and rs = "[TInt, TError]" and vd = False and f = 0
      and prog = "\<lambda>f a. Inr [VInt 7, VNil]"]
  by (simp add: ValueOf_def AssignableTo_def)

text \<open>
  C3, as the claim states it, fails: \<^verbatim>\<open>try\<close> of an accepted function of one parameter
  with no argument does not call it with a zero value; it panics.
\<close>

theorem funcTry_missing_argument_counterexample:
  "funcTry (\<lambda>f a. Inr [VInt 7, VNil]) (VFunc [TInt] False [TInt, TError] (Some 0)) [] =
     ([], Inl TooFewInputArguments)"
  by (simp add: call_def ValueOf_def AssignableTo_def)

subsection \<open>sanitizeHtml\<close>




subsection \<open>markdown\<close>

text \<open>
  C6 does not hold of the code. Whatever the converter writes, \<^verbatim>\<open>markdown\<close> returns it as a
  plain \<^verbatim>\<open>string\<close>, never as a \<^verbatim>\<open>template.HTML\<close>: the engine escapes it like any untrusted
  text, although the comment of \<^verbatim>\<open>funcMarkdown\<close> says the HTML is not escaped, and although
  \<^verbatim>\<open>funcSanitizeHtml\<close> returns \<^verbatim>\<open>template.HTML\<close> for the same purpose.
\<close>

theorem funcMarkdown_returns_plain_string:
  "strtype_of (fst (funcMarkdown ToString Convert input)) = Some GoString
   \<and> fst (funcMarkdown ToString Convert input) \<noteq> VStr HTML h
   \<and> funcMarkdown (\<lambda>v. case v of VStr k s \<Rightarrow> s | _ \<Rightarrow> []) (\<lambda>src. (''<h1>hi</h1>'', VNil))
        (VStr GoString ''# hi'') = (VStr GoString ''<h1>hi</h1>'', VNil)"
  by (simp add: funcMarkdown_def Let_def split: prod.splits)

subsection \<open>humanize\<close>

lemma Split_not_Nil: "Split s sep \<noteq> []"
  by (induction s) (auto split: list.splits)

lemma Split_time_layout: "Split (''time:'' @ layout) CHR '':'' = ''time'' # Split layout CHR '':''"
  by (simp split: list.splits)

text \<open>
  C7. With a format whose leading component is \<^verbatim>\<open>size\<close>, \<^verbatim>\<open>humanize\<close> parses the data as an
  unsigned decimal integer of 64 bits and returns the library's byte-size phrase for it, or
  an error when the data does not parse. With the format \<^verbatim>\<open>time\<close> or \<^verbatim>\<open>time:<layout>\<close> it
  parses the data with the layout \<^verbatim>\<open>RFC1123Z\<close> or with the layout given (all that follows the
  first colon) and returns the library's relative-time phrase, or an error when the data
  does not parse. With any other leading component it returns an error. On the example of
  the specification, the data \<^verbatim>\<open>1048576\<close> gives \<^verbatim>\<open>1.0 MB\<close>.
\<close>

theorem funcHumanize_size_time_or_error:
  "(hd (Split formatType CHR '':'') = ''size'' \<longrightarrow>
      (case ParseUint data of
         Inr n \<Rightarrow> funcHumanize Quote Bytes Parse Time formatType data = (VStr GoString (Bytes n), VNil)
       | Inl e \<Rightarrow> funcHumanize Quote Bytes Parse Time formatType data =
           (VStr GoString [],
            Errorf (''humanize: size cannot be parsed: '' @ NumError_Error Quote data e))))
   \<and> (formatType = ''time'' \<or> formatType = ''time:'' @ layout \<longrightarrow>
      (case Parse (if formatType = ''time'' then RFC1123Z else layout) data of
         Inr t \<Rightarrow> funcHumanize Quote Bytes Parse Time formatType data = (VStr GoString (Time t), VNil)
       | Inl msg \<Rightarrow> funcHumanize Quote Bytes Parse Time formatType data =
           (VStr GoString [], Errorf (''humanize: time cannot be parsed: '' @ msg))))
   \<and> (hd (Split formatType CHR '':'') \<noteq> ''size'' \<and> hd (Split formatType CHR '':'') \<noteq> ''time'' \<longrightarrow>
      funcHumanize Quote Bytes Parse Time formatType data =
        (VStr GoString [], Errorf ''no know function was given''))
   \<and> funcHumanize Quote humanize_Bytes Parse Time ''size'' ''1048576'' = (VStr GoString ''1.0 MB'', VNil)"
proof (intro conjI impI)
  assume "hd (Split formatType CHR '':'') = ''size''"
  then show "case ParseUint data of
         Inr n \<Rightarrow> funcHumanize Quote Bytes Parse Time formatType data = (VStr GoString (Bytes n), VNil)
       | Inl e \<Rightarrow> funcHumanize Quote Bytes Parse Time formatType data =
           (VStr GoString [],
            Errorf (''humanize: size cannot be parsed: '' @ NumError_Error Quote data e))"
    by (simp add: funcHumanize_def Let_def split: sum.splits)
next
  assume "formatType = ''time'' \<or> formatType = ''time:'' @ layout"
  then show "case Parse (if formatType = ''time'' then RFC1123Z else layout) data of
         Inr t \<Rightarrow> funcHumanize Quote Bytes Parse Time formatType data = (VStr GoString (Time t), VNil)
       | Inl msg \<Rightarrow> funcHumanize Quote Bytes Parse Time formatType data =
           (VStr GoString [], Errorf (''humanize: time cannot be parsed: '' @ msg))"
  proof
    assume "formatType = ''time''"
    then show ?thesis by (simp add: funcHumanize_def Let_def split: sum.splits)
  next
    assume f: "formatType = ''time:'' @ layout"
    have "Split layout CHR '':'' \<noteq> []" by (rule Split_not_Nil)
    then show ?thesis
      unfolding f funcHumanize_def Let_def Split_time_layout
      by (simp split: sum.splits)
  qed
next
  assume "hd (Split formatType CHR '':'') \<noteq> ''size'' \<and> hd (Split formatType CHR '':'') \<noteq> ''time''"
  then show "funcHumanize Quote Bytes Parse Time formatType data =
        (VStr GoString [], Errorf ''no know function was given'')"
    by (simp add: funcHumanize_def Let_def)
next
  have "ParseUint ''1048576'' = Inr 1048576" by (simp add: ParseUint_def digit_of_def)
  moreover have "humanize_Bytes 1048576 = ''1.0 MB''"
    by (simp add: humanize_Bytes_def logn1000.simps itoa.simps Let_def)
  ultimately show "funcHumanize Quote humanize_Bytes Parse Time ''size'' ''1048576'' = (VStr GoString ''1.0 MB'', VNil)"
    by (simp add: funcHumanize_def Let_def)
qed

theorem funcHumanize_size_time_or_error_witness:
  "funcHumanize id (\<lambda>n. ''bytes'') (\<lambda>l d. if d = ''now'' then Inr (0 :: nat) else Inl ''bad time'') (\<lambda>t. ''now'')
       ''size'' ''12'' = (VStr GoString ''bytes'', VNil)
   \<and> funcHumanize id (\<lambda>n. ''bytes'') (\<lambda>l d. if d = ''now'' then Inr (0 :: nat) else Inl ''bad time'') (\<lambda>t. ''now'')
       ''size:x'' ''-1'' =
       (VStr GoString [],
        Errorf ''humanize: size cannot be parsed: strconv.ParseUint: parsing -1: invalid syntax'')
   \<and> funcHumanize id (\<lambda>n. ''bytes'') (\<lambda>l d. if d = ''now'' then Inr (0 :: nat) else Inl ''bad time'') (\<lambda>t. ''now'')
       ''time'' ''now'' = (VStr GoString ''now'', VNil)
   \<and> funcHumanize id (\<lambda>n. ''bytes'') (\<lambda>l d. if d = ''now'' then Inr (0 :: nat) else Inl ''bad time'') (\<lambda>t. ''now'')
       ''time:15:04'' ''x'' = (VStr GoString [], Errorf ''humanize: time cannot be parsed: bad time'')
   \<and> funcHumanize id (\<lambda>n. ''bytes'') (\<lambda>l d. if d = ''now'' then Inr (0 :: nat) else Inl ''bad time'') (\<lambda>t. ''now'')
       ''bogus'' ''x'' = (VStr GoString [], Errorf ''no know function was given'')"
  using
    funcHumanize_size_time_or_error [where formatType = "''size''" and data = "''12''" and Quote = id
      and Bytes = "\<lambda>n. ''bytes''" and Time = "\<lambda>t. ''now''" and layout = "''15:04''"
      and Parse = "\<lambda>l d. if d = ''now'' then Inr (0 :: nat) else Inl ''bad time''"]
    funcHumanize_size_time_or_error [where formatType = "''size:x''" and data = "''-1''" and Quote = id
      and Bytes = "\<lambda>n. ''bytes''" and Time = "\<lambda>t. ''now''" and layout = "''15:04''"
      and Parse = "\<lambda>l d. if d = ''now'' then Inr (0 :: nat) else Inl ''bad time''"]
    funcHumanize_size_time_or_error [where formatType = "''time''" and data = "''now''" and Quote = id
      and Bytes = "\<lambda>n. ''bytes''" and Time = "\<lambda>t. ''now''" and layout = "''15:04''"
      and Parse = "\<lambda>l d. if d = ''now'' then Inr (0 :: nat) else Inl ''bad time''"]
    funcHumanize_size_time_or_error [where formatType = "''time:15:04''" and data = "''x''" and Quote = id
      and Bytes = "\<lambda>n. ''bytes''" and Time = "\<lambda>t. ''now''" and layout = "''15:04''"
      and Parse = "\<lambda>l d. if d = ''now'' then Inr (0 :: nat) else Inl ''bad time''"]
    funcHumanize_size_time_or_error [where formatType = "''bogus''" and data = "''x''" and Quote = id
      and Bytes = "\<lambda>n. ''bytes''" and Time = "\<lambda>t. ''now''" and layout = "''15:04''"
      and Parse = "\<lambda>l d. if d = ''now'' then Inr (0 :: nat) else Inl ''bad time''"]
  by (simp add: ParseUint_def digit_of_def NumError_Error_def)

end
